theory Spec2Isabelle
  imports Complex_Main
begin

section \<open>Python values and exceptions\<close>

text \<open>
  The application is one Python module, \<^verbatim>\<open>app.py\<close>. Python strings are modelled as
  \<^typ>\<open>string\<close>, Python integers as \<^typ>\<open>int\<close> (or \<^typ>\<open>nat\<close> for counters and row
  identifiers, which the code only ever increments from zero), and an exception that a
  function can raise as the left summand of its result type.
\<close>

datatype py_exception =
    KeyError string  \<comment> \<open>a missing dictionary key\<close>
  | TypeError string  \<comment> \<open>subscripting a value that has no string keys; the payload is its message\<close>
  | IndexError  \<comment> \<open>a list index out of range\<close>
  | IntegrityError  \<comment> \<open>\<open>sqlite3.IntegrityError\<close>: a violated table constraint\<close>

text \<open>\<open>str(e)\<close>, which the code formats into its messages.\<close>

fun py_str :: "py_exception \<Rightarrow> string" where
  "py_str (KeyError k) = [CHR 0x27] @ k @ [CHR 0x27]"
| "py_str (TypeError msg) = msg"
| "py_str IndexError = ''list index out of range''"
| "py_str IntegrityError = ''UNIQUE constraint failed: users.email''"

text \<open>\<open>str(n)\<close> of a Python integer, as an f-string formats it.\<close>

fun str_nat :: "nat \<Rightarrow> string" where
  "str_nat n =
     (if n < 10 then [char_of (48 + n)]
      else str_nat (n div 10) @ [char_of (48 + n mod 10)])"

definition str_int :: "int \<Rightarrow> string" where
  "str_int i = (if i < 0 then CHR ''-'' # str_nat (nat (- i)) else str_nat (nat i))"

section \<open>Tone selection\<close>

text \<open>\<open>get_age_appropriate_tone(age)\<close>: an \<open>if\<close>/\<open>elif\<close> chain on the age.\<close>

definition get_age_appropriate_tone :: "int \<Rightarrow> string" where
  "get_age_appropriate_tone age =
     (if age < 13 then
        ''friendly, simple, and encouraging like talking to a curious kid''
      else if age < 18 then
        ''engaging and supportive like talking to a teenager''
      else if age < 25 then
        ''enthusiastic and relatable like talking to a young adult''
      else
        ''professional but approachable like talking to an adult professional'')"

section \<open>The content service: lessons and answers\<close>

text \<open>
  The three generators call \<open>openai.ChatCompletion.create\<close> and read
  \<open>response.choices[0].message.content\<close>. The remote service is not part of the
  repository: it is a parameter \<open>chat\<close> of the model, from the request to either the
  content string (\<open>Inr\<close>) or the text \<open>str(e)\<close> of the exception that the call or the
  access to its response raised (\<open>Inl\<close>).
\<close>

record chat_request =
  req_model :: string
  req_content :: string  \<comment> \<open>the single user message\<close>
  req_max_tokens :: nat
  req_temperature :: rat

type_synonym chat_backend = "chat_request \<Rightarrow> string + string"

definition lesson_prompt :: "string \<Rightarrow> int \<Rightarrow> string \<Rightarrow> string" where
  "lesson_prompt topic age tone =
     ''\<newline>'' @
     ''    Create a comprehensive coding lesson about \"'' @ topic @
       ''\" for someone who is '' @ str_int age @ '' years old.\<newline>'' @
     ''    \<newline>'' @
     ''    Use a '' @ tone @ '' tone throughout the lesson.\<newline>'' @
     ''    \<newline>'' @
     ''    Structure the lesson as follows:\<newline>'' @
     ''    1. Introduction - What is this topic and why is it important?\<newline>'' @
     ''    2. Core Concepts - Break down the main ideas\<newline>'' @
     ''    3. Practical Examples - Show real code examples with explanations\<newline>'' @
     ''    4. Common Use Cases - Where and when to use this\<newline>'' @
     ''    5. Best Practices - Tips for writing good code\<newline>'' @
     ''    6. Next Steps - What to learn after mastering this\<newline>'' @
     ''    \<newline>'' @
     ''    Make sure the content is detailed enough that someone could understand the topic VERY well just from this lesson.\<newline>'' @
     ''    Include code examples where relevant and explain them thoroughly.\<newline>'' @
     ''    \<newline>'' @
     ''    Keep the explanation comprehensive but digestible, appropriate for age '' @
       str_int age @ ''.\<newline>'' @
     ''    ''"

definition lesson_request :: "string \<Rightarrow> int \<Rightarrow> chat_request" where
  "lesson_request topic age =
     \<lparr>req_model = ''gpt-4o-mini'',
      req_content = lesson_prompt topic age (get_age_appropriate_tone age),
      req_max_tokens = 2000,
      req_temperature = 7 / 10\<rparr>"

text \<open>
  \<open>generate_lesson(topic, age)\<close>. The call sits in \<open>try\<close>; the handler
  \<open>except Exception as e\<close> returns a string. The result type keeps a summand for an
  exception that would reach the caller.
\<close>

definition generate_lesson :: "chat_backend \<Rightarrow> string \<Rightarrow> int \<Rightarrow> py_exception + string" where
  "generate_lesson chat topic age =
     (case chat (lesson_request topic age) of
        Inr content \<Rightarrow> Inr content
      | Inl e \<Rightarrow> Inr (''Error generating lesson: '' @ e))"

definition answer_prompt :: "string \<Rightarrow> string \<Rightarrow> int \<Rightarrow> string \<Rightarrow> string" where
  "answer_prompt question lesson_topic age tone =
     ''\<newline>'' @
     ''    You are helping someone who is '' @ str_int age @
       '' years old learn about \"'' @ lesson_topic @ ''\".\<newline>'' @
     ''    \<newline>'' @
     ''    They asked: \"'' @ question @ ''\"\<newline>'' @
     ''    \<newline>'' @
     ''    Provide a helpful, clear answer using a '' @ tone @ '' tone.\<newline>'' @
     ''    If the question is related to the lesson topic, give a thorough explanation.\<newline>'' @
     ''    If it'' @ [CHR 0x27] @ ''s not related, gently redirect them back to the lesson topic.\<newline>'' @
     ''    \<newline>'' @
     ''    Keep your answer focused and educational.\<newline>'' @
     ''    ''"

definition answer_request :: "string \<Rightarrow> string \<Rightarrow> int \<Rightarrow> chat_request" where
  "answer_request question lesson_topic age =
     \<lparr>req_model = ''gpt-4o-mini'',
      req_content = answer_prompt question lesson_topic age (get_age_appropriate_tone age),
      req_max_tokens = 500,
      req_temperature = 7 / 10\<rparr>"

definition answer_question ::
  "chat_backend \<Rightarrow> string \<Rightarrow> string \<Rightarrow> int \<Rightarrow> py_exception + string" where
  "answer_question chat question lesson_topic age =
     (case chat (answer_request question lesson_topic age) of
        Inr content \<Rightarrow> Inr content
      | Inl e \<Rightarrow>
          Inr (''Sorry, I couldn'' @ [CHR 0x27] @
               ''t process your question right now. Error: '' @ e))"

section \<open>The content service: quizzes\<close>

text \<open>
  The string operations \<open>generate_quiz\<close> applies to the response. Strings are lists of
  \<^typ>\<open>char\<close>; on ASCII text this is Python's \<open>str\<close>, and text outside ASCII stands as its
  UTF-8 bytes. \<open>str.strip()\<close> removes the white space at both ends.
\<close>

definition is_space :: "char \<Rightarrow> bool" where
  "is_space c \<longleftrightarrow>
     c \<in> {CHR '' '', CHR 0x09, CHR 0x0A, CHR 0x0B, CHR 0x0C, CHR 0x0D,
          CHR 0x1C, CHR 0x1D, CHR 0x1E, CHR 0x1F}"

definition strip :: "string \<Rightarrow> string" where
  "strip s = rev (dropWhile is_space (rev (dropWhile is_space s)))"

text \<open>The position of the first occurrence of \<open>sub\<close> in \<open>s\<close>, if there is one.\<close>

fun first_occurrence :: "string \<Rightarrow> string \<Rightarrow> nat option" where
  "first_occurrence sub [] = (if sub = [] then Some 0 else None)"
| "first_occurrence sub (c # cs) =
     (if take (length sub) (c # cs) = sub then Some 0
      else map_option Suc (first_occurrence sub cs))"

text \<open>\<open>sub in s\<close> and \<open>s.find(sub, start)\<close>, which is \<open>-1\<close> when nothing is found.\<close>

definition py_contains :: "string \<Rightarrow> string \<Rightarrow> bool" where
  "py_contains s sub \<longleftrightarrow> first_occurrence sub s \<noteq> None"

definition py_find :: "string \<Rightarrow> string \<Rightarrow> nat \<Rightarrow> int" where
  "py_find s sub start =
     (if length s < start then - 1
      else case first_occurrence sub (drop start s) of
             None \<Rightarrow> - 1
           | Some k \<Rightarrow> int (start + k))"

text \<open>
  The slice \<open>s[lo:hi]\<close>: a negative bound counts from the end, and both bounds are
  clamped to the string.
\<close>

definition py_slice :: "string \<Rightarrow> int \<Rightarrow> int \<Rightarrow> string" where
  "py_slice s lo hi =
     (let n = int (length s);
          clamp = (\<lambda>i. if i < 0 then max 0 (n + i) else min i n)
      in drop (nat (clamp lo)) (take (nat (clamp hi)) s))"

text \<open>
  The two branches that take the JSON out of a Markdown fence. When the closing fence
  is missing, \<open>find\<close> gives \<open>-1\<close> and the slice drops the last character.
\<close>

definition strip_fences :: "string \<Rightarrow> string" where
  "strip_fences response_text =
     (if py_contains response_text ''```json'' then
        let json_start = py_find response_text ''```json'' 0 + 7;
            json_end = py_find response_text ''```'' (nat json_start)
        in strip (py_slice response_text json_start json_end)
      else if py_contains response_text ''```'' then
        let json_start = py_find response_text ''```'' 0 + 3;
            json_end = py_find response_text ''```'' (nat json_start)
        in strip (py_slice response_text json_start json_end)
      else response_text)"

text \<open>
  The values \<open>json.loads\<close> returns: \<open>None\<close>, a \<open>bool\<close>, an \<open>int\<close>, a \<open>float\<close>, a \<open>str\<close>, a
  \<open>list\<close>, or a \<open>dict\<close> with string keys (the list of its items).
\<close>

datatype py_float = Finite rat | PosInfinity | NegInfinity | NaN

datatype json_value =
    JNull
  | JBool bool
  | JInt int
  | JFloat py_float
  | JString string
  | JArray "json_value list"
  | JObject "(string \<times> json_value) list"

text \<open>
  \<open>value[key]\<close> with a string key: a lookup in a \<open>dict\<close>, where a missing key raises
  \<open>KeyError\<close>; a \<open>TypeError\<close> for every other value (the messages are those of CPython
  3.11).
\<close>

fun py_getitem :: "json_value \<Rightarrow> string \<Rightarrow> py_exception + json_value" where
  "py_getitem (JObject items) key =
     (case map_of items key of Some v \<Rightarrow> Inr v | None \<Rightarrow> Inl (KeyError key))"
| "py_getitem (JArray xs) key =
     Inl (TypeError ''list indices must be integers or slices, not str'')"
| "py_getitem (JString s) key =
     Inl (TypeError (''string indices must be integers, not '' @ [CHR 0x27] @ ''str'' @ [CHR 0x27]))"
| "py_getitem (JInt i) key =
     Inl (TypeError ([CHR 0x27] @ ''int'' @ [CHR 0x27] @ '' object is not subscriptable''))"
| "py_getitem (JFloat x) key =
     Inl (TypeError ([CHR 0x27] @ ''float'' @ [CHR 0x27] @ '' object is not subscriptable''))"
| "py_getitem (JBool b) key =
     Inl (TypeError ([CHR 0x27] @ ''bool'' @ [CHR 0x27] @ '' object is not subscriptable''))"
| "py_getitem JNull key =
     Inl (TypeError ([CHR 0x27] @ ''NoneType'' @ [CHR 0x27] @ '' object is not subscriptable''))"

definition quiz_prompt :: "string \<Rightarrow> int \<Rightarrow> string \<Rightarrow> string" where
  "quiz_prompt topic age tone =
     ''\<newline>'' @
     ''    Create exactly 8 multiple choice quiz questions about \"'' @ topic @
       ''\" for someone who is '' @ str_int age @ '' years old.\<newline>'' @
     ''    \<newline>'' @
     ''    Use a '' @ tone @ '' tone for the questions.\<newline>'' @
     ''    \<newline>'' @
     ''    Each question should test understanding of the key concepts from the lesson.\<newline>'' @
     ''    Make them challenging but fair - someone who studied the lesson should be able to answer them.\<newline>'' @
     ''    \<newline>'' @
     ''    Format as JSON with this exact structure:\<newline>'' @
     ''    {\<newline>'' @
     ''        \"questions\": [\<newline>'' @
     ''            {\<newline>'' @
     ''                \"question\": \"Question text here?\",\<newline>'' @
     ''                \"options\": [\"A) Option 1\", \"B) Option 2\", \"C) Option 3\", \"D) Option 4\"],\<newline>'' @
     ''                \"correct\": 0,\<newline>'' @
     ''                \"explanation\": \"Why this answer is correct\"\<newline>'' @
     ''            }\<newline>'' @
     ''        ]\<newline>'' @
     ''    }\<newline>'' @
     ''    \<newline>'' @
     ''    The \"correct\" field should be the index (0-3) of the correct answer.\<newline>'' @
     ''    Make sure all 8 questions are different and cover various aspects of the topic.\<newline>'' @
     ''    ''"

definition quiz_request :: "string \<Rightarrow> int \<Rightarrow> chat_request" where
  "quiz_request topic age =
     \<lparr>req_model = ''gpt-4o-mini'',
      req_content = quiz_prompt topic age (get_age_appropriate_tone age),
      req_max_tokens = 2000,
      req_temperature = 7 / 10\<rparr>"

text \<open>
  \<open>generate_quiz(topic, age)\<close>. \<open>json.loads\<close> is the standard library's: it is the
  parameter \<open>loads\<close>, from the text to the parsed value or to the text of its
  \<open>JSONDecodeError\<close>. The result is the value returned to the caller and the messages
  passed to \<open>st.error\<close>, in order. The first handler, \<open>except json.JSONDecodeError\<close>,
  reports the error and the first 200 characters of the response; the second,
  \<open>except Exception\<close>, reports every other exception of the \<open>try\<close> block: the remote
  call's (the client library raises its own exception classes, none of them a
  \<open>JSONDecodeError\<close>), and the one that \<open>quiz_data["questions"]\<close> raises. Both return
  \<open>[]\<close>.
\<close>

definition generate_quiz ::
  "chat_backend \<Rightarrow> (string \<Rightarrow> string + json_value) \<Rightarrow> string \<Rightarrow> int
     \<Rightarrow> json_value \<times> string list" where
  "generate_quiz chat loads topic age =
     (case chat (quiz_request topic age) of
        Inl e \<Rightarrow> (JArray [], [''Error generating quiz: '' @ e])
      | Inr content \<Rightarrow>
          let response_text = strip_fences (strip content) in
          case loads response_text of
            Inl e \<Rightarrow>
              (JArray [],
               [''Error parsing quiz JSON: '' @ e,
                ''Raw response: '' @ take 200 response_text @ ''...''])
          | Inr quiz_data \<Rightarrow>
              (case py_getitem quiz_data ''questions'' of
                 Inl e \<Rightarrow> (JArray [], [''Error generating quiz: '' @ py_str e])
               | Inr questions \<Rightarrow> (questions, [])))"

text \<open>
  The result shape the specification gives for quiz generation. A quiz item is an object
  with a question string, exactly four option strings, a correct index from 0 to 3 and
  an explanation string; a quiz is an array of exactly eight quiz items; a result has
  the stated shape when it is a quiz with nothing reported, or the empty array with
  something reported.
\<close>

fun is_string :: "json_value \<Rightarrow> bool" where
  "is_string (JString s) = True"
| "is_string v = False"

fun is_index :: "json_value \<Rightarrow> bool" where
  "is_index (JInt i) = (0 \<le> i \<and> i \<le> 3)"
| "is_index v = False"

fun is_options :: "json_value \<Rightarrow> bool" where
  "is_options (JArray xs) = (length xs = 4 \<and> list_all is_string xs)"
| "is_options v = False"

definition has_member :: "(json_value \<Rightarrow> bool) \<Rightarrow> (string \<times> json_value) list \<Rightarrow> string \<Rightarrow> bool" where
  "has_member ok items key = (case map_of items key of Some v \<Rightarrow> ok v | None \<Rightarrow> False)"

fun is_quiz_item :: "json_value \<Rightarrow> bool" where
  "is_quiz_item (JObject items) =
     (has_member is_string items ''question'' \<and> has_member is_options items ''options'' \<and>
      has_member is_index items ''correct'' \<and> has_member is_string items ''explanation'')"
| "is_quiz_item v = False"

fun is_quiz :: "json_value \<Rightarrow> bool" where
  "is_quiz (JArray xs) = (length xs = 8 \<and> list_all is_quiz_item xs)"
| "is_quiz v = False"

definition spec_quiz_result :: "json_value \<times> string list \<Rightarrow> bool" where
  "spec_quiz_result r \<longleftrightarrow> (is_quiz (fst r) \<and> snd r = []) \<or> (fst r = JArray [] \<and> snd r \<noteq> [])"

section \<open>The database\<close>

text \<open>
  \<open>init_database\<close> creates two tables in \<^verbatim>\<open>users.db\<close>. A table is the list of its rows
  in insertion order. Both primary keys are \<open>INTEGER PRIMARY KEY AUTOINCREMENT\<close>: SQLite
  keeps, per table, the largest row identifier it has ever assigned and gives a new row
  an identifier above that one and above every identifier in the table. Timestamps are
  readings of the database clock (\<open>CURRENT_TIMESTAMP\<close>), an input of each operation.
\<close>

record user_row =
  u_id :: nat
  u_email :: string
  u_password_hash :: string
  u_age :: int
  u_created_at :: nat
  u_last_login :: "nat option"

record progress_row =
  p_id :: nat
  p_user_id :: nat
  p_topic :: string
  p_quiz_score :: nat
  p_completed_at :: nat

record database =
  users :: "user_row list"
  users_seq :: nat  \<comment> \<open>largest identifier ever assigned in \<open>users\<close>\<close>
  user_progress :: "progress_row list"
  user_progress_seq :: nat  \<comment> \<open>largest identifier ever assigned in \<open>user_progress\<close>\<close>

text \<open>
  \<open>init_database()\<close>: \<open>CREATE TABLE IF NOT EXISTS\<close> twice. On a file without the tables
  (\<open>None\<close>) both start empty; existing tables are left as they are.
\<close>

definition init_database :: "database option \<Rightarrow> database" where
  "init_database file =
     (case file of
        None \<Rightarrow> \<lparr>users = [], users_seq = 0, user_progress = [], user_progress_seq = 0\<rparr>
      | Some db \<Rightarrow> db)"

definition next_rowid :: "nat \<Rightarrow> nat list \<Rightarrow> nat" where
  "next_rowid seq ids = Suc (fold max ids seq)"

text \<open>
  \<open>INSERT INTO users (email, password_hash, age) VALUES (?, ?, ?)\<close>. The column
  \<open>email\<close> is \<open>TEXT UNIQUE NOT NULL\<close>: the statement fails with
  \<open>sqlite3.IntegrityError\<close> when a row with the same email exists (the comparison is
  SQLite's default binary one, that is equality of the strings), and the table is
  then unchanged. Otherwise the row is appended and its identifier is the cursor's
  \<open>lastrowid\<close>.
\<close>

definition insert_user ::
  "nat \<Rightarrow> database \<Rightarrow> string \<Rightarrow> string \<Rightarrow> int \<Rightarrow> py_exception + (database \<times> nat)" where
  "insert_user now db email hashed_password age =
     (if email \<in> set (map u_email (users db)) then Inl IntegrityError
      else
        let rowid = next_rowid (users_seq db) (map u_id (users db)) in
        Inr (db\<lparr>users := users db @
                  [\<lparr>u_id = rowid, u_email = email, u_password_hash = hashed_password,
                    u_age = age, u_created_at = now, u_last_login = None\<rparr>],
                users_seq := rowid\<rparr>,
             rowid))"

text \<open>
  \<open>hash_password_secure(password)\<close> and \<open>verify_password(password, hashed)\<close> call the
  \<open>bcrypt\<close> library, which is not part of the repository: \<open>hashpw\<close> and \<open>checkpw\<close> are
  parameters, and the salt that \<open>bcrypt.gensalt()\<close> draws is an input.
\<close>

definition hash_password_secure :: "(string \<Rightarrow> string \<Rightarrow> string) \<Rightarrow> string \<Rightarrow> string \<Rightarrow> string" where
  "hash_password_secure hashpw salt password = hashpw password salt"

definition verify_password :: "(string \<Rightarrow> string \<Rightarrow> bool) \<Rightarrow> string \<Rightarrow> string \<Rightarrow> bool" where
  "verify_password checkpw password hashed = checkpw password hashed"

text \<open>
  \<open>create_user(email, password, age)\<close>: the insertion in \<open>try\<close>, with
  \<open>except sqlite3.IntegrityError: return None\<close>. Any other exception would reach the
  caller. The result is the returned value (\<open>None\<close> or the new identifier) and the
  database after the call.
\<close>

definition create_user ::
  "(string \<Rightarrow> string \<Rightarrow> string) \<Rightarrow> string \<Rightarrow> nat \<Rightarrow> database \<Rightarrow> string \<Rightarrow> string \<Rightarrow> int
     \<Rightarrow> py_exception + (nat option \<times> database)" where
  "create_user hashpw salt now db email password age =
     (let hashed_password = hash_password_secure hashpw salt password in
      case insert_user now db email hashed_password age of
        Inr (db', user_id) \<Rightarrow> Inr (Some user_id, db')
      | Inl e \<Rightarrow> (if e = IntegrityError then Inr (None, db) else Inl e))"

text \<open>The dictionary that \<open>authenticate_user\<close> returns and the session keeps.\<close>

record user =
  ud_id :: nat
  ud_email :: string
  ud_age :: int

text \<open>
  \<open>authenticate_user(email, password)\<close>: \<open>fetchone()\<close> gives the first row with the
  email or \<open>None\<close>; only when a row is found and the password verifies is
  \<open>last_login\<close> updated (in every row with that identifier) and the dictionary
  returned. Every other path returns \<open>None\<close>.
\<close>

definition authenticate_user ::
  "(string \<Rightarrow> string \<Rightarrow> bool) \<Rightarrow> nat \<Rightarrow> database \<Rightarrow> string \<Rightarrow> string \<Rightarrow> user option \<times> database" where
  "authenticate_user checkpw now db email password =
     (case find (\<lambda>r. u_email r = email) (users db) of
        None \<Rightarrow> (None, db)
      | Some result \<Rightarrow>
          if verify_password checkpw password (u_password_hash result) then
            (Some \<lparr>ud_id = u_id result, ud_email = email, ud_age = u_age result\<rparr>,
             db\<lparr>users := map (\<lambda>r. if u_id r = u_id result then r\<lparr>u_last_login := Some now\<rparr> else r)
                            (users db)\<rparr>)
          else (None, db))"

text \<open>
  \<open>save_user_progress(user_id, topic, score)\<close>: one \<open>INSERT INTO user_progress\<close>. No
  constraint of the table can fail for an integer user, a string topic and an integer
  score (SQLite does not enforce the foreign key unless asked to).
\<close>

definition save_user_progress :: "nat \<Rightarrow> database \<Rightarrow> nat \<Rightarrow> string \<Rightarrow> nat \<Rightarrow> database" where
  "save_user_progress now db user_id topic score =
     (let rowid = next_rowid (user_progress_seq db) (map p_id (user_progress db)) in
      db\<lparr>user_progress := user_progress db @
            [\<lparr>p_id = rowid, p_user_id = user_id, p_topic = topic, p_quiz_score = score,
              p_completed_at = now\<rparr>],
          user_progress_seq := rowid\<rparr>)"

section \<open>The session\<close>

text \<open>
  \<open>st.session_state\<close> with the seven fields the module initialises. \<open>user_data\<close> is
  either the empty dictionary (\<open>None\<close>) or the dictionary of \<open>authenticate_user\<close>. An
  answer is what \<open>st.radio\<close> returned: an option string, or Python's \<open>None\<close> when the
  widget has nothing selected.
\<close>

record quiz_item =
  q_question :: string
  q_options :: "string list"
  q_correct :: int
  q_explanation :: string

record session_state =
  logged_in :: bool
  user_data :: "user option"
  current_lesson :: "string option"
  quiz_questions :: "quiz_item list"
  quiz_answers :: "nat \<rightharpoonup> string option"
  quiz_submitted :: bool
  lesson_topic :: string



section \<open>The quiz\<close>

text \<open>
  Python's \<open>xs[i]\<close> on a list: a negative index counts from the end, and an index
  outside the list raises \<open>IndexError\<close>.
\<close>

definition py_index :: "'a list \<Rightarrow> int \<Rightarrow> py_exception + 'a" where
  "py_index xs i =
     (if 0 \<le> i \<and> i < int (length xs) then Inr (xs ! nat i)
      else if i < 0 \<and> - int (length xs) \<le> i then Inr (xs ! nat (int (length xs) + i))
      else Inl IndexError)"

text \<open>\<open>st.session_state.quiz_answers.get(i, "")\<close>.\<close>

definition get_answer :: "(nat \<rightharpoonup> string option) \<Rightarrow> nat \<Rightarrow> string option" where
  "get_answer answers i = (case answers i of None \<Rightarrow> Some '''' | Some a \<Rightarrow> a)"

text \<open>
  What \<open>display_quiz\<close> shows. For a graded question: the user's answer marked correct,
  or the user's answer and the correct option. At the end: the \<open>success-box\<close> (``You've
  mastered this topic!'') or the \<open>warning-box\<close> (``Review the lesson and try again!''),
  each with the score.
\<close>

datatype answer_feedback =
    AnswerCorrect "string option"
  | AnswerWrong "string option" string

datatype result_box = SuccessBox nat | WarningBox nat

datatype quiz_view = FormView | ResultsView "answer_feedback list" result_box

text \<open>
  The widgets of one run of the script: the value each \<open>st.radio\<close> returns (by question
  index), and whether each button reports a click.
\<close>

record quiz_input =
  radio_value :: "nat \<Rightarrow> string option"
  submit_quiz :: bool
  retake_quiz :: bool
  new_topic :: bool

text \<open>
  The loop of the form branch, \<open>for i, q in enumerate(quiz_questions)\<close>, which stores
  the radio's value under the question's index.
\<close>

fun record_answers ::
  "(nat \<Rightarrow> string option) \<Rightarrow> nat \<Rightarrow> quiz_item list \<Rightarrow> (nat \<rightharpoonup> string option)
     \<Rightarrow> (nat \<rightharpoonup> string option)" where
  "record_answers radio i [] answers = answers"
| "record_answers radio i (q # qs) answers =
     record_answers radio (Suc i) qs (answers(i \<mapsto> radio i))"

text \<open>
  The loop of the results branch, from index \<open>i\<close> with the running \<open>correct_count\<close> and
  the feedback shown so far. \<open>q['options'][q['correct']]\<close> can raise, which ends the run.
\<close>

fun grade_questions ::
  "(nat \<rightharpoonup> string option) \<Rightarrow> nat \<Rightarrow> quiz_item list \<Rightarrow> nat \<Rightarrow> answer_feedback list
     \<Rightarrow> py_exception + (nat \<times> answer_feedback list)" where
  "grade_questions answers i [] correct_count shown = Inr (correct_count, shown)"
| "grade_questions answers i (q # qs) correct_count shown =
     (let user_answer = get_answer answers i in
      case py_index (q_options q) (q_correct q) of
        Inl e \<Rightarrow> Inl e
      | Inr correct_option \<Rightarrow>
          if user_answer = Some correct_option then
            grade_questions answers (Suc i) qs (correct_count + 1)
              (shown @ [AnswerCorrect user_answer])
          else
            grade_questions answers (Suc i) qs correct_count
              (shown @ [AnswerWrong user_answer correct_option]))"

text \<open>The final result: \<open>if correct_count >= 5\<close>.\<close>

definition final_result :: "nat \<Rightarrow> result_box" where
  "final_result correct_count =
     (if correct_count \<ge> 5 then SuccessBox correct_count else WarningBox correct_count)"

text \<open>
  \<open>display_quiz()\<close>, one run. The result is the session state and the database after
  the run, what was shown, and whether the run ended in \<open>st.rerun()\<close>; or the exception
  that ended it, in which case neither the session nor the database has changed.
\<close>

definition display_quiz ::
  "nat \<Rightarrow> quiz_input \<Rightarrow> session_state \<Rightarrow> database
     \<Rightarrow> py_exception + (session_state \<times> database \<times> quiz_view \<times> bool)" where
  "display_quiz now inp st db =
     (if \<not> quiz_submitted st then
        let st1 = st\<lparr>quiz_answers :=
                    record_answers (radio_value inp) 0 (quiz_questions st) (quiz_answers st)\<rparr>
        in if submit_quiz inp then Inr (st1\<lparr>quiz_submitted := True\<rparr>, db, FormView, True)
           else Inr (st1, db, FormView, False)
      else
        case grade_questions (quiz_answers st) 0 (quiz_questions st) 0 [] of
          Inl e \<Rightarrow> Inl e
        | Inr (correct_count, shown) \<Rightarrow>
            let db1 = (case user_data st of
                         Some u \<Rightarrow> save_user_progress now db (ud_id u) (lesson_topic st) correct_count
                       | None \<Rightarrow> db);
                shown_view = ResultsView shown (final_result correct_count)
            in if retake_quiz inp then
                 Inr (st\<lparr>quiz_submitted := False, quiz_answers := Map.empty\<rparr>,
                      db1, shown_view, True)
               else if new_topic inp then
                 Inr (st\<lparr>current_lesson := None, lesson_topic := '''', quiz_questions := [],
                         quiz_answers := Map.empty, quiz_submitted := False\<rparr>,
                      db1, shown_view, True)
               else Inr (st, db1, shown_view, False))"

text \<open>
  The properties of grading are stated against a description of the result that follows
  the specification's words. An item's correct option is the option string at its correct
  index; an item is in range when that index is one of its options' positions.
\<close>

definition correct_option :: "quiz_item \<Rightarrow> string" where
  "correct_option q = q_options q ! nat (q_correct q)"

definition correct_in_range :: "quiz_item \<Rightarrow> bool" where
  "correct_in_range q \<longleftrightarrow> 0 \<le> q_correct q \<and> q_correct q < int (length (q_options q))"

text \<open>
  The number of indices at which the answer taken for the question (the recorded one, or
  the empty string when none is recorded) is the same string as the item's correct option.
\<close>

definition spec_correct_count :: "(nat \<rightharpoonup> string option) \<Rightarrow> quiz_item list \<Rightarrow> nat" where
  "spec_correct_count answers items =
     length (filter (\<lambda>(i, q). get_answer answers i = Some (correct_option q)) (enumerate 0 items))"

text \<open>
  The number of indices whose recorded answer is the same string as the item's correct
  option: an index without a recorded answer is not counted.
\<close>

definition recorded_matches :: "(nat \<rightharpoonup> string option) \<Rightarrow> quiz_item list \<Rightarrow> nat" where
  "recorded_matches answers items =
     length (filter (\<lambda>(i, q). answers i = Some (Some (correct_option q))) (enumerate 0 items))"

text \<open>The feedback line of one question.\<close>

definition spec_feedback :: "(nat \<rightharpoonup> string option) \<Rightarrow> nat \<times> quiz_item \<Rightarrow> answer_feedback" where
  "spec_feedback answers iq =
     (if get_answer answers (fst iq) = Some (correct_option (snd iq))
      then AnswerCorrect (get_answer answers (fst iq))
      else AnswerWrong (get_answer answers (fst iq)) (correct_option (snd iq)))"

section \<open>Sample data\<close>

text \<open>Concrete inputs on which the theorems below are instantiated.\<close>

definition sample_hashpw :: "string \<Rightarrow> string \<Rightarrow> string" where
  "sample_hashpw password salt = salt @ ''$'' @ rev password"

definition sample_checkpw :: "string \<Rightarrow> string \<Rightarrow> bool" where
  "sample_checkpw password hashed \<longleftrightarrow>
     drop (length hashed - Suc (length password)) hashed = ''$'' @ rev password"

definition alice_row :: user_row where
  "alice_row =
     \<lparr>u_id = 1, u_email = ''alice@example.com'',
      u_password_hash = sample_hashpw ''Secret1'' ''s1'', u_age = 16,
      u_created_at = 100, u_last_login = None\<rparr>"

definition sample_db :: database where
  "sample_db = \<lparr>users = [alice_row], users_seq = 1, user_progress = [], user_progress_seq = 0\<rparr>"

definition failing_chat :: chat_backend where
  "failing_chat request = Inl ''Connection timed out''"

definition replying_chat :: chat_backend where
  "replying_chat request = Inr ''A loop repeats a block of code.''"

definition sample_options :: "string list" where
  "sample_options = [''A) for'', ''B) while'', ''C) if'', ''D) def'']"

definition sample_item :: "int \<Rightarrow> quiz_item" where
  "sample_item c =
     \<lparr>q_question = ''Which keyword starts this statement?'', q_options = sample_options,
      q_correct = c, q_explanation = ''See the lesson.''\<rparr>"

definition sample_quiz :: "quiz_item list" where
  "sample_quiz = map sample_item [0, 1, 2, 3, 0, 1, 2, 3]"

text \<open>A user who selects, for question \<open>i\<close>, the option at position \<open>picks ! i\<close>.\<close>

definition radio_of :: "nat list \<Rightarrow> nat \<Rightarrow> string option" where
  "radio_of picks i = (if i < length picks then Some (sample_options ! (picks ! i)) else None)"

definition four_right :: "nat \<rightharpoonup> string option" where
  "four_right = record_answers (radio_of [0, 1, 2, 3, 1, 2, 3, 0]) 0 sample_quiz Map.empty"

definition five_right :: "nat \<rightharpoonup> string option" where
  "five_right = record_answers (radio_of [0, 1, 2, 3, 1, 1, 1, 1]) 0 sample_quiz Map.empty"

text \<open>An item with the same text at two positions.\<close>

definition twin_item :: quiz_item where
  "twin_item =
     \<lparr>q_question = ''Is a list mutable?'', q_options = [''yes'', ''yes'', ''no'', ''maybe''],
      q_correct = 0, q_explanation = ''Lists can be changed in place.''\<rparr>"

definition alice_user :: user where
  "alice_user = \<lparr>ud_id = 1, ud_email = ''alice@example.com'', ud_age = 16\<rparr>"

text \<open>A logged-in session on the topic Loops, with the quiz loaded and nothing answered.\<close>

definition ready_session :: session_state where
  "ready_session =
     \<lparr>logged_in = True, user_data = Some alice_user,
      current_lesson = Some ''A loop repeats a block of code.'',
      quiz_questions = sample_quiz, quiz_answers = Map.empty, quiz_submitted = False,
      lesson_topic = ''Loops''\<rparr>"

text \<open>The same session after the quiz was submitted with the given answers.\<close>

definition submitted_session :: "(nat \<rightharpoonup> string option) \<Rightarrow> session_state" where
  "submitted_session answers = ready_session\<lparr>quiz_answers := answers, quiz_submitted := True\<rparr>"

definition idle_input :: quiz_input where
  "idle_input =
     \<lparr>radio_value = (\<lambda>i. None), submit_quiz = False, retake_quiz = False, new_topic = False\<rparr>"

definition submit_input :: "(nat \<Rightarrow> string option) \<Rightarrow> quiz_input" where
  "submit_input radio =
     \<lparr>radio_value = radio, submit_quiz = True, retake_quiz = False, new_topic = False\<rparr>"

definition retake_input :: quiz_input where
  "retake_input = idle_input\<lparr>retake_quiz := True\<rparr>"

definition new_topic_input :: quiz_input where
  "new_topic_input = idle_input\<lparr>new_topic := True\<rparr>"

text \<open>The results page of the session submitted with four right answers.\<close>

definition four_right_view :: quiz_view where
  "four_right_view =
     ResultsView (map (spec_feedback four_right) (enumerate 0 sample_quiz)) (WarningBox 4)"

text \<open>The database after the results page has been shown once, and twice.\<close>

definition shown_once_db :: database where
  "shown_once_db = save_user_progress 401 sample_db 1 ''Loops'' 4"

definition shown_twice_db :: database where
  "shown_twice_db = save_user_progress 402 shown_once_db 1 ''Loops'' 4"

text \<open>
  A quiz whose first item has the empty string as its correct option, and an answer
  mapping that records three answers of eight.
\<close>

definition blank_item :: quiz_item where
  "blank_item =
     \<lparr>q_question = ''Which keyword starts this statement?'',
      q_options = ['''', ''B) while'', ''C) if'', ''D) def''],
      q_correct = 0, q_explanation = ''See the lesson.''\<rparr>"

definition blank_quiz :: "quiz_item list" where
  "blank_quiz = blank_item # map sample_item [1, 2, 3, 0, 1, 2, 3]"

definition three_recorded :: "nat \<rightharpoonup> string option" where
  "three_recorded = [0 \<mapsto> Some ''A) for'', 1 \<mapsto> Some ''A) for'', 5 \<mapsto> Some ''B) while'']"

text \<open>
  Responses of the remote service. The first is a fenced JSON document whose single
  question has two options and the correct index 5. The second is a document of eight
  well-formed questions. \<open>sample_loads\<close> is \<open>json.loads\<close> on these two documents, and
  fails on every other text.
\<close>

definition short_item :: json_value where
  "short_item =
     JObject [(''question'', JString ''What does a loop do?''),
              (''options'', JArray [JString ''A) repeats'', JString ''B) stops'']),
              (''correct'', JInt 5),
              (''explanation'', JString ''It repeats.'')]"

definition short_text :: string where
  "short_text =
     ''{\"questions\": [{\"question\": \"What does a loop do?\", '' @
     ''\"options\": [\"A) repeats\", \"B) stops\"], \"correct\": 5, '' @
     ''\"explanation\": \"It repeats.\"}]}''"

definition fenced_chat :: chat_backend where
  "fenced_chat request = Inr (''```json\<newline>'' @ short_text @ ''\<newline>```'')"

definition json_item :: "string \<Rightarrow> int \<Rightarrow> json_value" where
  "json_item q c =
     JObject [(''question'', JString q),
              (''options'', JArray (map JString sample_options)),
              (''correct'', JInt c),
              (''explanation'', JString ''See the lesson.'')]"

definition json_item_text :: "string \<Rightarrow> string \<Rightarrow> string" where
  "json_item_text q c =
     ''{\"question\": \"'' @ q @ ''\", '' @
     ''\"options\": [\"A) for\", \"B) while\", \"C) if\", \"D) def\"], '' @
     ''\"correct\": '' @ c @ '', \"explanation\": \"See the lesson.\"}''"

definition eight_items :: json_value where
  "eight_items =
     JArray [json_item ''Question 1?'' 0, json_item ''Question 2?'' 1,
             json_item ''Question 3?'' 2, json_item ''Question 4?'' 3,
             json_item ''Question 5?'' 0, json_item ''Question 6?'' 1,
             json_item ''Question 7?'' 2, json_item ''Question 8?'' 3]"

definition eight_text :: string where
  "eight_text =
     ''{\"questions\": ['' @
     json_item_text ''Question 1?'' ''0'' @ '', '' @ json_item_text ''Question 2?'' ''1'' @ '', '' @
     json_item_text ''Question 3?'' ''2'' @ '', '' @ json_item_text ''Question 4?'' ''3'' @ '', '' @
     json_item_text ''Question 5?'' ''0'' @ '', '' @ json_item_text ''Question 6?'' ''1'' @ '', '' @
     json_item_text ''Question 7?'' ''2'' @ '', '' @ json_item_text ''Question 8?'' ''3'' @
     '']}''"

definition eight_chat :: chat_backend where
  "eight_chat request = Inr eight_text"

definition prose_chat :: chat_backend where
  "prose_chat request = Inr ''I cannot write a quiz about that.''"

definition sample_loads :: "string \<Rightarrow> string + json_value" where
  "sample_loads doc =
     (if doc = short_text then Inr (JObject [(''questions'', JArray [short_item])])
      else if doc = eight_text then Inr (JObject [(''questions'', eight_items)])
      else Inl ''Expecting value: line 1 column 1 (char 0)'')"

section \<open>Properties\<close>

subsection \<open>Tone bands\<close>

text \<open>
  Claim C8. Tone selection is a function of the age alone and maps every age into exactly
  one of four bands: under 13, 13 through 17, 18 through 24, and 25 or older. Each band
  has its own fixed tone string, the four strings are pairwise different, and the
  boundary ages 12, 13, 17, 18, 24 and 25 fall in the bands named.
\<close>

theorem get_age_appropriate_tone_bands:
  "(age < 13 \<longrightarrow> get_age_appropriate_tone age =
      ''friendly, simple, and encouraging like talking to a curious kid'') \<and>
   (13 \<le> age \<and> age \<le> 17 \<longrightarrow> get_age_appropriate_tone age =
      ''engaging and supportive like talking to a teenager'') \<and>
   (18 \<le> age \<and> age \<le> 24 \<longrightarrow> get_age_appropriate_tone age =
      ''enthusiastic and relatable like talking to a young adult'') \<and>
   (25 \<le> age \<longrightarrow> get_age_appropriate_tone age =
      ''professional but approachable like talking to an adult professional'') \<and>
   get_age_appropriate_tone 12 \<noteq> get_age_appropriate_tone 13 \<and>
   get_age_appropriate_tone 17 \<noteq> get_age_appropriate_tone 18 \<and>
   get_age_appropriate_tone 24 \<noteq> get_age_appropriate_tone 25 \<and>
   get_age_appropriate_tone 12 \<noteq> get_age_appropriate_tone 18 \<and>
   get_age_appropriate_tone 12 \<noteq> get_age_appropriate_tone 25 \<and>
   get_age_appropriate_tone 13 \<noteq> get_age_appropriate_tone 25"
  by (simp add: get_age_appropriate_tone_def)

theorem get_age_appropriate_tone_bands_witness:
  "get_age_appropriate_tone 12 =
      ''friendly, simple, and encouraging like talking to a curious kid'' \<and>
   get_age_appropriate_tone 13 =
      ''engaging and supportive like talking to a teenager'' \<and>
   get_age_appropriate_tone 17 =
      ''engaging and supportive like talking to a teenager'' \<and>
   get_age_appropriate_tone 18 =
      ''enthusiastic and relatable like talking to a young adult'' \<and>
   get_age_appropriate_tone 24 =
      ''enthusiastic and relatable like talking to a young adult'' \<and>
   get_age_appropriate_tone 25 =
      ''professional but approachable like talking to an adult professional''"
  using get_age_appropriate_tone_bands [of 12] get_age_appropriate_tone_bands [of 13]
    get_age_appropriate_tone_bands [of 17] get_age_appropriate_tone_bands [of 18]
    get_age_appropriate_tone_bands [of 24] get_age_appropriate_tone_bands [of 25]
  by simp

subsection \<open>Lessons and answers degrade to text\<close>

text \<open>
  Claim C9. Whatever the topic, the question and the age, and whether the remote service
  answers or fails, \<open>generate_lesson\<close> and \<open>answer_question\<close> return a string and raise
  nothing: when the service answers, its content; when it fails with an exception whose
  text is \<open>e\<close>, a fixed error prefix followed by \<open>e\<close>.
\<close>

theorem generators_return_text:
  "(\<exists>text. generate_lesson chat topic age = Inr text) \<and>
   (\<exists>text. answer_question chat question topic age = Inr text) \<and>
   (\<forall>e. chat (lesson_request topic age) = Inl e \<longrightarrow>
      generate_lesson chat topic age = Inr (''Error generating lesson: '' @ e)) \<and>
   (\<forall>c. chat (lesson_request topic age) = Inr c \<longrightarrow>
      generate_lesson chat topic age = Inr c) \<and>
   (\<forall>e. chat (answer_request question topic age) = Inl e \<longrightarrow>
      answer_question chat question topic age =
        Inr (''Sorry, I couldn'' @ [CHR 0x27] @ ''t process your question right now. Error: '' @ e)) \<and>
   (\<forall>c. chat (answer_request question topic age) = Inr c \<longrightarrow>
      answer_question chat question topic age = Inr c)"
  by (auto simp: generate_lesson_def answer_question_def split: sum.splits)

theorem generators_return_text_witness:
  "generate_lesson failing_chat ''Loops'' 16 =
     Inr ''Error generating lesson: Connection timed out'' \<and>
   answer_question failing_chat ''What is a loop?'' ''Loops'' 16 =
     Inr (''Sorry, I couldn'' @ [CHR 0x27] @
          ''t process your question right now. Error: Connection timed out'') \<and>
   generate_lesson replying_chat ''Loops'' 16 = Inr ''A loop repeats a block of code.'' \<and>
   answer_question replying_chat ''What is a loop?'' ''Loops'' 16 =
     Inr ''A loop repeats a block of code.''"
  using generators_return_text [of failing_chat "''Loops''" 16 "''What is a loop?''"]
    generators_return_text [of replying_chat "''Loops''" 16 "''What is a loop?''"]
  by (simp add: failing_chat_def replying_chat_def)

subsection \<open>Registration\<close>







subsection \<open>Authentication\<close>



subsection \<open>Grading\<close>

lemma py_index_in_range:
  "correct_in_range q \<Longrightarrow> py_index (q_options q) (q_correct q) = Inr (correct_option q)"
  by (simp add: correct_in_range_def py_index_def correct_option_def)

lemma grade_questions_enumerate:
  "\<forall>q\<in>set qs. correct_in_range q \<Longrightarrow>
   grade_questions answers i qs c shown =
     Inr (c + length (filter (\<lambda>(k, q). get_answer answers k = Some (correct_option q))
                        (enumerate i qs)),
          shown @ map (spec_feedback answers) (enumerate i qs))"
proof (induction qs arbitrary: i c shown)
  case Nil
  show ?case by simp
next
  case (Cons q qs)
  from Cons.prems have q: "py_index (q_options q) (q_correct q) = Inr (correct_option q)"
    by (simp add: py_index_in_range)
  from Cons.prems have rest: "\<forall>q\<in>set qs. correct_in_range q" by simp
  show ?case
  proof (cases "get_answer answers i = Some (correct_option q)")
    case True
    then show ?thesis
      using Cons.IH [OF rest, of "Suc i" "c + 1" "shown @ [AnswerCorrect (get_answer answers i)]"] q
      by (simp add: spec_feedback_def)
  next
    case False
    then show ?thesis
      using Cons.IH [OF rest, of "Suc i" c
          "shown @ [AnswerWrong (get_answer answers i) (correct_option q)]"] q
      by (simp add: spec_feedback_def)
  qed
qed

text \<open>
  Claim C3. Grading walks the quiz items in order and, at each index, compares the
  answer string taken for that index with the option string at the item's correct index,
  by equality of the strings; the correct-count is the number of indices where they are
  equal. It is a function of the answer mapping and the item sequence, so the same inputs
  give the same count. (Stated for items whose correct index is one of the positions of
  their options; eight in the application, any number here.)
\<close>

theorem grading_counts_string_matches:
  "\<forall>q\<in>set items. correct_in_range q \<Longrightarrow>
   grade_questions answers 0 items 0 [] =
     Inr (spec_correct_count answers items,
          map (spec_feedback answers) (enumerate 0 items))"
  by (simp add: grade_questions_enumerate spec_correct_count_def)

theorem grading_counts_string_matches_witness:
  "map_sum id fst (grade_questions four_right 0 sample_quiz 0 []) = Inr 4 \<and>
   map_sum id fst (grade_questions five_right 0 sample_quiz 0 []) = Inr 5 \<and>
   grade_questions [0 \<mapsto> Some ''yes''] 0 [twin_item] 0 [] =
     Inr (1, [AnswerCorrect (Some ''yes'')])"
proof -
  have range: "\<forall>q\<in>set sample_quiz. correct_in_range q"
    by (simp add: sample_quiz_def sample_item_def sample_options_def correct_in_range_def)
  have twin: "\<forall>q\<in>set [twin_item]. correct_in_range q"
    by (simp add: twin_item_def correct_in_range_def)
  have four: "spec_correct_count four_right sample_quiz = 4"
    by (simp add: spec_correct_count_def four_right_def sample_quiz_def sample_item_def
        sample_options_def radio_of_def get_answer_def correct_option_def)
  have five: "spec_correct_count five_right sample_quiz = 5"
    by (simp add: spec_correct_count_def five_right_def sample_quiz_def sample_item_def
        sample_options_def radio_of_def get_answer_def correct_option_def)
  have one: "spec_correct_count [0 \<mapsto> Some ''yes''] [twin_item] = 1"
    by (simp add: spec_correct_count_def twin_item_def get_answer_def correct_option_def)
  have shown: "map (spec_feedback [0 \<mapsto> Some ''yes'']) (enumerate 0 [twin_item]) =
      [AnswerCorrect (Some ''yes'')]"
    by (simp add: spec_feedback_def twin_item_def get_answer_def correct_option_def)
  have g4: "grade_questions four_right 0 sample_quiz 0 [] =
      Inr (4, map (spec_feedback four_right) (enumerate 0 sample_quiz))"
    by (simp only: grading_counts_string_matches [OF range] four)
  have g5: "grade_questions five_right 0 sample_quiz 0 [] =
      Inr (5, map (spec_feedback five_right) (enumerate 0 sample_quiz))"
    by (simp only: grading_counts_string_matches [OF range] five)
  have g1: "grade_questions [0 \<mapsto> Some ''yes''] 0 [twin_item] 0 [] =
      Inr (1, [AnswerCorrect (Some ''yes'')])"
    by (simp only: grading_counts_string_matches [OF twin] one shown)
  show ?thesis
    by (simp only: g4 g5 g1 map_sum.simps fst_conv id_apply simp_thms)
qed

subsection \<open>The results page\<close>

lemma sample_quiz_in_range: "\<forall>q\<in>set sample_quiz. correct_in_range q"
  by (simp add: sample_quiz_def sample_item_def sample_options_def correct_in_range_def)

lemma grade_four_right:
  "grade_questions four_right 0 sample_quiz 0 [] =
     Inr (4, map (spec_feedback four_right) (enumerate 0 sample_quiz))"
proof -
  have "length (filter (\<lambda>(k, q). get_answer four_right k = Some (correct_option q))
          (enumerate 0 sample_quiz)) = 4"
    by (simp add: four_right_def sample_quiz_def sample_item_def
        sample_options_def radio_of_def get_answer_def correct_option_def)
  then show ?thesis
    by (simp only: grade_questions_enumerate [OF sample_quiz_in_range] add_0 append_Nil)
qed

lemma grade_five_right:
  "grade_questions five_right 0 sample_quiz 0 [] =
     Inr (5, map (spec_feedback five_right) (enumerate 0 sample_quiz))"
proof -
  have "length (filter (\<lambda>(k, q). get_answer five_right k = Some (correct_option q))
          (enumerate 0 sample_quiz)) = 5"
    by (simp add: five_right_def sample_quiz_def sample_item_def
        sample_options_def radio_of_def get_answer_def correct_option_def)
  then show ?thesis
    by (simp only: grade_questions_enumerate [OF sample_quiz_in_range] add_0 append_Nil)
qed

text \<open>One run of \<open>display_quiz\<close> on a submitted session whose grading succeeds.\<close>

lemma display_quiz_submitted:
  assumes "quiz_submitted st"
    and "grade_questions (quiz_answers st) 0 (quiz_questions st) 0 [] = Inr (c, shown)"
  shows "display_quiz now inp st db =
     Inr (if retake_quiz inp then st\<lparr>quiz_submitted := False, quiz_answers := Map.empty\<rparr>
          else if new_topic inp then
            st\<lparr>current_lesson := None, lesson_topic := '''', quiz_questions := [],
               quiz_answers := Map.empty, quiz_submitted := False\<rparr>
          else st,
          case user_data st of
            Some u \<Rightarrow> save_user_progress now db (ud_id u) (lesson_topic st) c
          | None \<Rightarrow> db,
          ResultsView shown (final_result c),
          retake_quiz inp \<or> new_topic inp)"
  using assms by (simp add: display_quiz_def Let_def)

lemma display_quiz_submitted_graded:
  assumes "quiz_submitted st"
    and "display_quiz now inp st db = Inr (st', db', v, r)"
  obtains c shown where
    "grade_questions (quiz_answers st) 0 (quiz_questions st) 0 [] = Inr (c, shown)"
proof (cases "grade_questions (quiz_answers st) 0 (quiz_questions st) 0 []")
  case (Inl e)
  with assms have False by (simp add: display_quiz_def)
  then show ?thesis ..
next
  case (Inr p)
  then show ?thesis using that [of "fst p" "snd p"] by simp
qed

text \<open>
  Claim C4. The result shown for a graded session is the success box (mastered) exactly
  when the correct-count is at least 5, and the warning box (needs review) otherwise:
  a count of 5 gives the success box and a count of 4 the warning box. Every results
  page that \<open>display_quiz\<close> shows carries the box chosen this way from the count that
  grading computed.
\<close>

theorem mastered_iff_five_correct:
  "(final_result c = SuccessBox c \<longleftrightarrow> 5 \<le> c) \<and>
   (final_result c = WarningBox c \<longleftrightarrow> c < 5) \<and>
   final_result 5 = SuccessBox 5 \<and>
   final_result 4 = WarningBox 4 \<and>
   (quiz_submitted st \<and> display_quiz now inp st db = Inr (st', db', v, r) \<longrightarrow>
      (\<exists>n shown.
         grade_questions (quiz_answers st) 0 (quiz_questions st) 0 [] = Inr (n, shown) \<and>
         v = ResultsView shown (if 5 \<le> n then SuccessBox n else WarningBox n)))"
proof -
  have box: "(final_result c = SuccessBox c \<longleftrightarrow> 5 \<le> c) \<and>
      (final_result c = WarningBox c \<longleftrightarrow> c < 5) \<and>
      final_result 5 = SuccessBox 5 \<and> final_result 4 = WarningBox 4"
    by (auto simp: final_result_def)
  have page: "\<exists>n shown.
      grade_questions (quiz_answers st) 0 (quiz_questions st) 0 [] = Inr (n, shown) \<and>
      v = ResultsView shown (if 5 \<le> n then SuccessBox n else WarningBox n)"
    if sub: "quiz_submitted st" and run: "display_quiz now inp st db = Inr (st', db', v, r)"
  proof -
    from sub run obtain n shown where
      g: "grade_questions (quiz_answers st) 0 (quiz_questions st) 0 [] = Inr (n, shown)"
      by (rule display_quiz_submitted_graded)
    from run display_quiz_submitted [OF sub g, of now inp db]
    have "v = ResultsView shown (final_result n)" by simp
    with g show ?thesis by (auto simp: final_result_def)
  qed
  from box page show ?thesis by blast
qed

lemma submitted_session_graded:
  "quiz_submitted (submitted_session answers)"
  "quiz_answers (submitted_session answers) = answers"
  "quiz_questions (submitted_session answers) = sample_quiz"
  "user_data (submitted_session answers) = Some alice_user"
  "lesson_topic (submitted_session answers) = ''Loops''"
  by (simp_all add: submitted_session_def ready_session_def)

lemma display_quiz_four_right:
  "display_quiz now idle_input (submitted_session four_right) db =
     Inr (submitted_session four_right, save_user_progress now db 1 ''Loops'' 4,
          four_right_view, False)"
proof -
  have g: "grade_questions (quiz_answers (submitted_session four_right)) 0
      (quiz_questions (submitted_session four_right)) 0 [] =
      Inr (4, map (spec_feedback four_right) (enumerate 0 sample_quiz))"
    by (simp only: submitted_session_graded grade_four_right)
  show ?thesis
    by (simp add: display_quiz_submitted [OF submitted_session_graded(1) g]
        submitted_session_graded idle_input_def alice_user_def four_right_view_def
        final_result_def)
qed

lemma display_quiz_five_right:
  "display_quiz now idle_input (submitted_session five_right) db =
     Inr (submitted_session five_right, save_user_progress now db 1 ''Loops'' 5,
          ResultsView (map (spec_feedback five_right) (enumerate 0 sample_quiz)) (SuccessBox 5),
          False)"
proof -
  have g: "grade_questions (quiz_answers (submitted_session five_right)) 0
      (quiz_questions (submitted_session five_right)) 0 [] =
      Inr (5, map (spec_feedback five_right) (enumerate 0 sample_quiz))"
    by (simp only: submitted_session_graded grade_five_right)
  show ?thesis
    by (simp add: display_quiz_submitted [OF submitted_session_graded(1) g]
        submitted_session_graded idle_input_def alice_user_def final_result_def)
qed

theorem mastered_iff_five_correct_witness:
  "final_result 5 = SuccessBox 5 \<and>
   final_result 4 = WarningBox 4 \<and>
   final_result 8 = SuccessBox 8 \<and>
   final_result 0 = WarningBox 0 \<and>
   (\<exists>shown. grade_questions five_right 0 sample_quiz 0 [] = Inr (5, shown) \<and>
      display_quiz 401 idle_input (submitted_session five_right) sample_db =
        Inr (submitted_session five_right, save_user_progress 401 sample_db 1 ''Loops'' 5,
             ResultsView shown (SuccessBox 5), False)) \<and>
   (\<exists>shown. grade_questions four_right 0 sample_quiz 0 [] = Inr (4, shown) \<and>
      display_quiz 401 idle_input (submitted_session four_right) sample_db =
        Inr (submitted_session four_right, save_user_progress 401 sample_db 1 ''Loops'' 4,
             ResultsView shown (WarningBox 4), False))"
proof -
  note five = mastered_iff_five_correct
      [of 8 "submitted_session five_right" 401 idle_input sample_db
        "submitted_session five_right" "save_user_progress 401 sample_db 1 ''Loops'' 5"
        "ResultsView (map (spec_feedback five_right) (enumerate 0 sample_quiz)) (SuccessBox 5)"
        False]
  note four = mastered_iff_five_correct
      [of 0 "submitted_session four_right" 401 idle_input sample_db
        "submitted_session four_right" "save_user_progress 401 sample_db 1 ''Loops'' 4"
        four_right_view False]
  have boxes: "final_result 5 = SuccessBox 5 \<and> final_result 4 = WarningBox 4 \<and>
      final_result 8 = SuccessBox 8 \<and> final_result 0 = WarningBox 0"
    using five four by simp
  have page5: "\<exists>shown. grade_questions five_right 0 sample_quiz 0 [] = Inr (5, shown) \<and>
      display_quiz 401 idle_input (submitted_session five_right) sample_db =
        Inr (submitted_session five_right, save_user_progress 401 sample_db 1 ''Loops'' 5,
             ResultsView shown (SuccessBox 5), False)"
    using five display_quiz_five_right [of 401 sample_db] grade_five_right
    by (simp add: submitted_session_graded)
  have page4: "\<exists>shown. grade_questions four_right 0 sample_quiz 0 [] = Inr (4, shown) \<and>
      display_quiz 401 idle_input (submitted_session four_right) sample_db =
        Inr (submitted_session four_right, save_user_progress 401 sample_db 1 ''Loops'' 4,
             ResultsView shown (WarningBox 4), False)"
    using four display_quiz_four_right [of 401 sample_db] grade_four_right
    by (simp add: submitted_session_graded four_right_view_def)
  from boxes page5 page4 show ?thesis by simp
qed

subsection \<open>Retake and new topic\<close>

text \<open>
  Claim C7. On a graded session, the run in which the retake button reports its click
  ends with the submitted flag cleared and the answer mapping empty, and with every
  other field of the session, the quiz items among them, as before. The run in which the
  new-topic button reports its click ends with the quiz items, the answer mapping, the
  submitted flag, the lesson text and the lesson topic all reset to their empty values.
\<close>

theorem retake_keeps_items_new_topic_discards:
  assumes "quiz_submitted st"
    and "display_quiz now inp st db = Inr (st', db', v, r)"
  shows "(retake_quiz inp \<longrightarrow>
            st' = st\<lparr>quiz_submitted := False, quiz_answers := Map.empty\<rparr> \<and>
            quiz_questions st' = quiz_questions st \<and>
            quiz_answers st' = Map.empty \<and>
            \<not> quiz_submitted st' \<and>
            current_lesson st' = current_lesson st \<and>
            lesson_topic st' = lesson_topic st \<and> r) \<and>
         (\<not> retake_quiz inp \<and> new_topic inp \<longrightarrow>
            st' = st\<lparr>current_lesson := None, lesson_topic := '''', quiz_questions := [],
                     quiz_answers := Map.empty, quiz_submitted := False\<rparr> \<and>
            quiz_questions st' = [] \<and>
            quiz_answers st' = Map.empty \<and>
            \<not> quiz_submitted st' \<and>
            current_lesson st' = None \<and>
            lesson_topic st' = '''' \<and> r)"
proof -
  from assms obtain c shown where
    g: "grade_questions (quiz_answers st) 0 (quiz_questions st) 0 [] = Inr (c, shown)"
    by (rule display_quiz_submitted_graded)
  from assms(2) display_quiz_submitted [OF assms(1) g, of now inp db]
  have st': "st' = (if retake_quiz inp then st\<lparr>quiz_submitted := False, quiz_answers := Map.empty\<rparr>
          else if new_topic inp then
            st\<lparr>current_lesson := None, lesson_topic := '''', quiz_questions := [],
               quiz_answers := Map.empty, quiz_submitted := False\<rparr>
          else st)"
    and r: "r = (retake_quiz inp \<or> new_topic inp)"
    by simp_all
  show ?thesis
    by (simp add: st' r)
qed

theorem retake_keeps_items_new_topic_discards_witness:
  "(\<exists>st' db' v.
      display_quiz 402 retake_input (submitted_session four_right) shown_once_db =
        Inr (st', db', v, True) \<and>
      st' = ready_session \<and> quiz_questions st' = sample_quiz) \<and>
   (\<exists>st' db' v.
      display_quiz 402 new_topic_input (submitted_session four_right) shown_once_db =
        Inr (st', db', v, True) \<and>
      quiz_questions st' = [] \<and> quiz_answers st' = Map.empty \<and> \<not> quiz_submitted st' \<and>
      current_lesson st' = None \<and> lesson_topic st' = '''' \<and>
      logged_in st' \<and> user_data st' = Some alice_user)"
proof -
  have g: "grade_questions (quiz_answers (submitted_session four_right)) 0
      (quiz_questions (submitted_session four_right)) 0 [] =
      Inr (4, map (spec_feedback four_right) (enumerate 0 sample_quiz))"
    by (simp only: submitted_session_graded grade_four_right)
  have sub: "quiz_submitted (submitted_session four_right)"
    by (rule submitted_session_graded)
  have retake: "display_quiz 402 retake_input (submitted_session four_right) shown_once_db =
      Inr (ready_session, shown_twice_db, four_right_view, True)"
    unfolding display_quiz_submitted [OF sub g]
    by (simp add: retake_input_def idle_input_def
        submitted_session_def ready_session_def alice_user_def shown_twice_db_def
        four_right_view_def final_result_def)
  have fresh: "display_quiz 402 new_topic_input (submitted_session four_right) shown_once_db =
      Inr ((submitted_session four_right)
             \<lparr>current_lesson := None, lesson_topic := '''', quiz_questions := [],
              quiz_answers := Map.empty, quiz_submitted := False\<rparr>,
           shown_twice_db, four_right_view, True)"
    unfolding display_quiz_submitted [OF sub g]
    by (simp add: new_topic_input_def idle_input_def
        submitted_session_def ready_session_def alice_user_def shown_twice_db_def
        four_right_view_def final_result_def)
  show ?thesis
    using retake_keeps_items_new_topic_discards [OF sub retake]
      retake_keeps_items_new_topic_discards [OF sub fresh] retake fresh
    by (simp add: retake_input_def new_topic_input_def idle_input_def
        submitted_session_def ready_session_def)
qed

subsection \<open>Missing answers\<close>

lemma get_answer_matches:
  "get_answer answers i = Some s \<longleftrightarrow>
     answers i = Some (Some s) \<or> (answers i = None \<and> s = '''')"
  by (auto simp: get_answer_def split: option.splits)

lemma blank_quiz_in_range: "\<forall>q\<in>set blank_quiz. correct_in_range q"
  by (simp add: blank_quiz_def blank_item_def sample_item_def sample_options_def
      correct_in_range_def)

text \<open>
  Claim C10, as stated, fails: with no answer recorded, the question whose correct
  option is the empty string is counted as correct, so the count is 1 although no
  recorded answer equals a correct option.
\<close>

theorem missing_answer_counted_counterexample:
  "map_sum id fst (grade_questions Map.empty 0 blank_quiz 0 []) = Inr 1 \<and>
   recorded_matches Map.empty blank_quiz = 0 \<and>
   length blank_quiz = 8"
proof -
  have "length (filter (\<lambda>(k, q). get_answer Map.empty k = Some (correct_option q))
          (enumerate 0 blank_quiz)) = 1"
    by (simp add: blank_quiz_def blank_item_def sample_item_def sample_options_def
        get_answer_def correct_option_def)
  then have "grade_questions Map.empty 0 blank_quiz 0 [] =
      Inr (1, map (spec_feedback Map.empty) (enumerate 0 blank_quiz))"
    by (simp only: grade_questions_enumerate [OF blank_quiz_in_range] add_0 append_Nil)
  moreover have "recorded_matches Map.empty blank_quiz = 0"
    by (simp add: recorded_matches_def)
  moreover have "length blank_quiz = 8"
    by (simp add: blank_quiz_def)
  ultimately show ?thesis by simp
qed

text \<open>
  Claim C10, amended. For items whose correct index is one of the positions of their
  options, grading returns a count for every answer mapping, complete or not. An index
  without a recorded answer is graded as the empty string. The count is the number of
  indices whose answer, taken this way, equals the item's correct option; it is never
  below the number of recorded answers that equal the correct option, and it equals
  that number when no item with a missing answer has the empty string as its correct
  option.
\<close>

theorem grading_total_with_missing_answers:
  assumes "\<forall>q\<in>set items. correct_in_range q"
  shows "\<exists>c shown.
           grade_questions answers 0 items 0 [] = Inr (c, shown) \<and>
           length shown = length items \<and>
           c = spec_correct_count answers items \<and>
           recorded_matches answers items \<le> c \<and>
           (\<forall>i. answers i = None \<longrightarrow> get_answer answers i = Some '''') \<and>
           ((\<forall>(i, q)\<in>set (enumerate 0 items). answers i = None \<longrightarrow> correct_option q \<noteq> '''')
              \<longrightarrow> c = recorded_matches answers items)"
proof -
  let ?taken = "\<lambda>(i, q). get_answer answers i = Some (correct_option q)"
  let ?recorded = "\<lambda>(i, q). answers i = Some (Some (correct_option q))"
  have run: "grade_questions answers 0 items 0 [] =
      Inr (spec_correct_count answers items, map (spec_feedback answers) (enumerate 0 items))"
    using assms by (simp add: grade_questions_enumerate spec_correct_count_def)
  have "filter ?recorded (enumerate 0 items) = filter ?recorded (filter ?taken (enumerate 0 items))"
    by (auto simp: get_answer_matches intro: filter_cong)
  then have "length (filter ?recorded (enumerate 0 items)) \<le> length (filter ?taken (enumerate 0 items))"
    by (metis length_filter_le)
  then have below: "recorded_matches answers items \<le> spec_correct_count answers items"
    by (simp add: recorded_matches_def spec_correct_count_def)
  have default: "\<forall>i. answers i = None \<longrightarrow> get_answer answers i = Some ''''"
    by (simp add: get_answer_def)
  have same: "spec_correct_count answers items = recorded_matches answers items"
    if "\<forall>(i, q)\<in>set (enumerate 0 items). answers i = None \<longrightarrow> correct_option q \<noteq> ''''"
  proof -
    from that have "filter ?taken (enumerate 0 items) = filter ?recorded (enumerate 0 items)"
      by (intro filter_cong) (auto simp: get_answer_matches)
    then show ?thesis by (simp add: recorded_matches_def spec_correct_count_def)
  qed
  from run below default same show ?thesis by simp
qed

theorem grading_total_with_missing_answers_witness:
  "map_sum id fst (grade_questions three_recorded 0 sample_quiz 0 []) = Inr 2 \<and>
   recorded_matches three_recorded sample_quiz = 2 \<and>
   three_recorded 2 = None \<and>
   get_answer three_recorded 2 = Some ''''"
proof -
  have filled: "\<forall>(i, q)\<in>set (enumerate 0 sample_quiz).
      three_recorded i = None \<longrightarrow> correct_option q \<noteq> ''''"
    by (simp add: sample_quiz_def sample_item_def sample_options_def correct_option_def)
  have two: "recorded_matches three_recorded sample_quiz = 2"
    by (simp add: recorded_matches_def three_recorded_def sample_quiz_def sample_item_def
        sample_options_def correct_option_def)
  have missing: "three_recorded 2 = None"
    by (simp add: three_recorded_def)
  from grading_total_with_missing_answers [OF sample_quiz_in_range, of three_recorded]
  obtain c shown where
    run: "grade_questions three_recorded 0 sample_quiz 0 [] = Inr (c, shown)"
    and default: "\<forall>i. three_recorded i = None \<longrightarrow> get_answer three_recorded i = Some ''''"
    and same: "(\<forall>(i, q)\<in>set (enumerate 0 sample_quiz).
        three_recorded i = None \<longrightarrow> correct_option q \<noteq> '''') \<longrightarrow>
      c = recorded_matches three_recorded sample_quiz"
    by blast
  from same filled two have "c = 2" by simp
  with run default missing two show ?thesis by simp
qed

subsection \<open>Saving progress\<close>

lemma save_user_progress_appends:
  "user_progress (save_user_progress now db user_id topic score) =
     user_progress db @
       [\<lparr>p_id = next_rowid (user_progress_seq db) (map p_id (user_progress db)),
         p_user_id = user_id, p_topic = topic, p_quiz_score = score, p_completed_at = now\<rparr>]"
  by (simp add: save_user_progress_def Let_def)

text \<open>
  Claim C1, on the code. The first run of the results page of the sample session stores
  one record (user 1, topic Loops, score 4). The second run of the same page, with no
  button clicked and the session unchanged, stores the same record again: the table then
  holds two records for the one submission.
\<close>

theorem results_page_shown_twice_saves_twice:
  "display_quiz 400 (submit_input (radio_of [0, 1, 2, 3, 1, 2, 3, 0])) ready_session sample_db =
     Inr (submitted_session four_right, sample_db, FormView, True) \<and>
   display_quiz 401 idle_input (submitted_session four_right) sample_db =
     Inr (submitted_session four_right, shown_once_db, four_right_view, False) \<and>
   display_quiz 402 idle_input (submitted_session four_right) shown_once_db =
     Inr (submitted_session four_right, shown_twice_db, four_right_view, False) \<and>
   map (\<lambda>p. (p_user_id p, p_topic p, p_quiz_score p)) (user_progress sample_db) = [] \<and>
   map (\<lambda>p. (p_user_id p, p_topic p, p_quiz_score p)) (user_progress shown_once_db) =
     [(1, ''Loops'', 4)] \<and>
   map (\<lambda>p. (p_user_id p, p_topic p, p_quiz_score p)) (user_progress shown_twice_db) =
     [(1, ''Loops'', 4), (1, ''Loops'', 4)]"
proof -
  have submit: "display_quiz 400 (submit_input (radio_of [0, 1, 2, 3, 1, 2, 3, 0]))
      ready_session sample_db = Inr (submitted_session four_right, sample_db, FormView, True)"
    by (simp add: display_quiz_def submit_input_def ready_session_def submitted_session_def
        four_right_def Let_def)
  have rows: "map (\<lambda>p. (p_user_id p, p_topic p, p_quiz_score p)) (user_progress sample_db) = [] \<and>
      map (\<lambda>p. (p_user_id p, p_topic p, p_quiz_score p)) (user_progress shown_once_db) =
        [(1, ''Loops'', 4)] \<and>
      map (\<lambda>p. (p_user_id p, p_topic p, p_quiz_score p)) (user_progress shown_twice_db) =
        [(1, ''Loops'', 4), (1, ''Loops'', 4)]"
    by (simp add: shown_twice_db_def shown_once_db_def save_user_progress_appends sample_db_def)
  from submit rows show ?thesis
    by (simp only: display_quiz_four_right shown_once_db_def shown_twice_db_def simp_thms)
qed

subsection \<open>Quiz generation\<close>

lemma short_text_unfenced:
  "strip_fences (strip (''```json\<newline>'' @ short_text @ ''\<newline>```'')) = short_text"
  by code_simp

text \<open>
  Claim C2, as stated, fails: for a backend response that parses to an object whose
  \<open>questions\<close> member is an array of one item with two options and the correct index 5,
  \<open>generate_quiz\<close> returns that array and reports nothing.
\<close>

theorem generate_quiz_unvalidated_counterexample:
  "generate_quiz fenced_chat sample_loads ''Loops'' 16 = (JArray [short_item], []) \<and>
   \<not> spec_quiz_result (generate_quiz fenced_chat sample_loads ''Loops'' 16)"
proof -
  have run: "generate_quiz fenced_chat sample_loads ''Loops'' 16 = (JArray [short_item], [])"
    unfolding generate_quiz_def fenced_chat_def sum.case short_text_unfenced
    by (simp add: sample_loads_def)
  have "\<not> spec_quiz_result (JArray [short_item], [])"
    by (simp add: spec_quiz_result_def)
  with run show ?thesis by simp
qed

lemma first_occurrence_absent: "c \<notin> set s \<Longrightarrow> first_occurrence (c # sub) s = None"
  by (induction s) auto

lemma strip_fences_without_fence: "CHR 0x60 \<notin> set s \<Longrightarrow> strip_fences s = s"
  by (simp add: strip_fences_def py_contains_def first_occurrence_absent)

lemma strip_without_outer_space:
  assumes "s \<noteq> []" and "\<not> is_space (hd s)" and "\<not> is_space (last s)"
  shows "strip s = s"
proof -
  from assms(2) have front: "dropWhile is_space s = s"
    by (simp add: dropWhile_eq_self_iff)
  from assms(1,3) have "dropWhile is_space (rev s) = rev s"
    by (simp add: dropWhile_eq_self_iff hd_rev)
  with front show ?thesis by (simp add: strip_def)
qed

lemma item_text_no_fence:
  "CHR 0x60 \<notin> set q \<Longrightarrow> CHR 0x60 \<notin> set c \<Longrightarrow> CHR 0x60 \<notin> set (json_item_text q c)"
  unfolding json_item_text_def set_append by simp

lemma eight_text_no_fence: "CHR 0x60 \<notin> set eight_text"
  unfolding eight_text_def set_append Un_iff de_Morgan_disj
  by (intro conjI item_text_no_fence) simp_all

lemma eight_text_ends:
  "eight_text \<noteq> []" "\<not> is_space (hd eight_text)" "\<not> is_space (last eight_text)"
  by (simp_all add: eight_text_def last_append is_space_def)

lemma eight_text_unfenced: "strip_fences (strip eight_text) = eight_text"
  by (simp add: strip_without_outer_space strip_fences_without_fence eight_text_ends
      eight_text_no_fence)

lemma prose_unfenced:
  "strip_fences (strip ''I cannot write a quiz about that.'') =
     ''I cannot write a quiz about that.''"
  by code_simp

lemma texts_differ: "eight_text \<noteq> short_text"
proof
  assume "eight_text = short_text"
  then have "length eight_text = length short_text" by simp
  then show False
    by (simp add: eight_text_def short_text_def json_item_text_def)
qed

lemma eight_items_is_quiz: "is_quiz eight_items"
  by (simp add: eight_items_def json_item_def sample_options_def has_member_def)

text \<open>
  Claim C2, amended. \<open>generate_quiz\<close> returns one of two things. Either the remote call
  answered, the text left after white space and fences are removed parsed, and the
  parsed value is an object with a \<open>questions\<close> member: then that member is returned as it
  is, whatever it holds, and nothing is reported. Or the empty list is returned and at
  least one error is reported: the remote call's exception, the parse error together
  with the start of the response, or the exception of the \<open>questions\<close> lookup. In
  particular, when the member is an array of exactly eight well-formed quiz items, those
  eight items are returned; the code checks neither the number of items nor their
  fields.
\<close>

theorem generate_quiz_result_shape:
  "((\<exists>content quiz_data questions.
       chat (quiz_request topic age) = Inr content \<and>
       loads (strip_fences (strip content)) = Inr quiz_data \<and>
       py_getitem quiz_data ''questions'' = Inr questions \<and>
       generate_quiz chat loads topic age = (questions, [])) \<or>
    (\<exists>errors. errors \<noteq> [] \<and> generate_quiz chat loads topic age = (JArray [], errors))) \<and>
   (\<forall>content quiz_data questions.
       chat (quiz_request topic age) = Inr content \<and>
       loads (strip_fences (strip content)) = Inr quiz_data \<and>
       py_getitem quiz_data ''questions'' = Inr questions \<and> is_quiz questions \<longrightarrow>
       generate_quiz chat loads topic age = (questions, []) \<and>
       spec_quiz_result (generate_quiz chat loads topic age)) \<and>
   (\<forall>e. chat (quiz_request topic age) = Inl e \<longrightarrow>
       generate_quiz chat loads topic age = (JArray [], [''Error generating quiz: '' @ e])) \<and>
   (\<forall>content e.
       chat (quiz_request topic age) = Inr content \<and>
       loads (strip_fences (strip content)) = Inl e \<longrightarrow>
       generate_quiz chat loads topic age =
         (JArray [],
          [''Error parsing quiz JSON: '' @ e,
           ''Raw response: '' @ take 200 (strip_fences (strip content)) @ ''...''])) \<and>
   (\<forall>content quiz_data e.
       chat (quiz_request topic age) = Inr content \<and>
       loads (strip_fences (strip content)) = Inr quiz_data \<and>
       py_getitem quiz_data ''questions'' = Inl e \<longrightarrow>
       generate_quiz chat loads topic age =
         (JArray [], [''Error generating quiz: '' @ py_str e]))"
proof -
  have remote: "generate_quiz chat loads topic age = (JArray [], [''Error generating quiz: '' @ e])"
    if "chat (quiz_request topic age) = Inl e" for e
    using that by (simp add: generate_quiz_def)
  have parse: "generate_quiz chat loads topic age =
      (JArray [],
       [''Error parsing quiz JSON: '' @ e,
        ''Raw response: '' @ take 200 (strip_fences (strip content)) @ ''...''])"
    if "chat (quiz_request topic age) = Inr content"
      and "loads (strip_fences (strip content)) = Inl e" for content e
    using that by (simp add: generate_quiz_def Let_def)
  have lookup: "generate_quiz chat loads topic age =
      (JArray [], [''Error generating quiz: '' @ py_str e])"
    if "chat (quiz_request topic age) = Inr content"
      and "loads (strip_fences (strip content)) = Inr quiz_data"
      and "py_getitem quiz_data ''questions'' = Inl e" for content quiz_data e
    using that by (simp add: generate_quiz_def Let_def)
  have found: "generate_quiz chat loads topic age = (questions, [])"
    if "chat (quiz_request topic age) = Inr content"
      and "loads (strip_fences (strip content)) = Inr quiz_data"
      and "py_getitem quiz_data ''questions'' = Inr questions" for content quiz_data questions
    using that by (simp add: generate_quiz_def Let_def)
  have shape: "(\<exists>content quiz_data questions.
       chat (quiz_request topic age) = Inr content \<and>
       loads (strip_fences (strip content)) = Inr quiz_data \<and>
       py_getitem quiz_data ''questions'' = Inr questions \<and>
       generate_quiz chat loads topic age = (questions, [])) \<or>
    (\<exists>errors. errors \<noteq> [] \<and> generate_quiz chat loads topic age = (JArray [], errors))"
  proof (cases "chat (quiz_request topic age)")
    case (Inl e)
    then show ?thesis using remote by simp
  next
    case content: (Inr content)
    show ?thesis
    proof (cases "loads (strip_fences (strip content))")
      case (Inl e)
      with content show ?thesis using parse by simp
    next
      case doc: (Inr quiz_data)
      show ?thesis
      proof (cases "py_getitem quiz_data ''questions''")
        case (Inl e)
        with content doc show ?thesis using lookup by simp
      next
        case (Inr questions)
        with content doc show ?thesis using found by blast
      qed
    qed
  qed
  have good: "generate_quiz chat loads topic age = (questions, []) \<and>
      spec_quiz_result (generate_quiz chat loads topic age)"
    if "chat (quiz_request topic age) = Inr content"
      and "loads (strip_fences (strip content)) = Inr quiz_data"
      and "py_getitem quiz_data ''questions'' = Inr questions"
      and "is_quiz questions" for content quiz_data questions
    using found [OF that(1-3)] that(4) by (simp add: spec_quiz_result_def)
  from shape good remote parse lookup show ?thesis by blast
qed

theorem generate_quiz_result_shape_witness:
  "generate_quiz eight_chat sample_loads ''Loops'' 16 = (eight_items, []) \<and>
   spec_quiz_result (generate_quiz eight_chat sample_loads ''Loops'' 16) \<and>
   generate_quiz failing_chat sample_loads ''Loops'' 16 =
     (JArray [], [''Error generating quiz: Connection timed out'']) \<and>
   generate_quiz prose_chat sample_loads ''Loops'' 16 =
     (JArray [],
      [''Error parsing quiz JSON: Expecting value: line 1 column 1 (char 0)'',
       ''Raw response: I cannot write a quiz about that....''])"
proof -
  have chat8: "eight_chat (quiz_request ''Loops'' 16) = Inr eight_text"
    by (simp add: eight_chat_def)
  have loads8: "sample_loads (strip_fences (strip eight_text)) =
      Inr (JObject [(''questions'', eight_items)])"
    unfolding eight_text_unfenced using texts_differ by (simp add: sample_loads_def)
  have member8: "py_getitem (JObject [(''questions'', eight_items)]) ''questions'' = Inr eight_items"
    by simp
  have chat_fails: "failing_chat (quiz_request ''Loops'' 16) = Inl ''Connection timed out''"
    by (simp add: failing_chat_def)
  have chat_prose: "prose_chat (quiz_request ''Loops'' 16) = Inr ''I cannot write a quiz about that.''"
    by (simp add: prose_chat_def)
  have differs: "''I cannot write a quiz about that.'' \<noteq> short_text"
    "''I cannot write a quiz about that.'' \<noteq> eight_text"
    by code_simp+
  have loads_prose: "sample_loads (strip_fences (strip ''I cannot write a quiz about that.'')) =
      Inl ''Expecting value: line 1 column 1 (char 0)''"
    unfolding prose_unfenced using differs by (simp add: sample_loads_def)
  note good = generate_quiz_result_shape [of eight_chat "''Loops''" 16 sample_loads]
  note bad = generate_quiz_result_shape [of failing_chat "''Loops''" 16 sample_loads]
  note prose = generate_quiz_result_shape [of prose_chat "''Loops''" 16 sample_loads]
  from good chat8 loads8 member8 eight_items_is_quiz
  have r8: "generate_quiz eight_chat sample_loads ''Loops'' 16 = (eight_items, []) \<and>
      spec_quiz_result (generate_quiz eight_chat sample_loads ''Loops'' 16)"
    by blast
  from bad chat_fails
  have rf: "generate_quiz failing_chat sample_loads ''Loops'' 16 =
      (JArray [], [''Error generating quiz: '' @ ''Connection timed out''])"
    by blast
  from prose chat_prose loads_prose
  have rp: "generate_quiz prose_chat sample_loads ''Loops'' 16 =
      (JArray [],
       [''Error parsing quiz JSON: '' @ ''Expecting value: line 1 column 1 (char 0)'',
        ''Raw response: '' @
          take 200 (strip_fences (strip ''I cannot write a quiz about that.'')) @ ''...''])"
    by blast
  from r8 have r8a: "generate_quiz eight_chat sample_loads ''Loops'' 16 = (eight_items, [])"
    and r8b: "spec_quiz_result (generate_quiz eight_chat sample_loads ''Loops'' 16)"
    by (rule conjunct1, rule conjunct2)
  from rf have rf': "generate_quiz failing_chat sample_loads ''Loops'' 16 =
      (JArray [], [''Error generating quiz: Connection timed out''])"
    by simp
  from rp have rp': "generate_quiz prose_chat sample_loads ''Loops'' 16 =
      (JArray [],
       [''Error parsing quiz JSON: Expecting value: line 1 column 1 (char 0)'',
        ''Raw response: I cannot write a quiz about that....''])"
    unfolding prose_unfenced by simp
  from r8a r8b rf' rp' show ?thesis by blast
qed

subsection \<open>Further properties of the quiz and the accounts\<close>

text \<open>
  Every run of the results page of a logged-in user's submitted session
  that does not raise appends exactly one row to \<open>user_progress\<close>: the user's identifier,
  the session's topic and the correct-count of that run. The accounts are untouched.
\<close>

theorem results_page_saves_one_record:
  assumes "quiz_submitted st" and "user_data st = Some u"
    and "display_quiz now inp st db = Inr (st', db', v, r)"
  shows "\<exists>c shown row.
           grade_questions (quiz_answers st) 0 (quiz_questions st) 0 [] = Inr (c, shown) \<and>
           user_progress db' = user_progress db @ [row] \<and>
           p_user_id row = ud_id u \<and> p_topic row = lesson_topic st \<and> p_quiz_score row = c \<and>
           p_completed_at row = now \<and> users db' = users db"
proof -
  from assms(1,3) obtain c shown where
    g: "grade_questions (quiz_answers st) 0 (quiz_questions st) 0 [] = Inr (c, shown)"
    by (rule display_quiz_submitted_graded)
  from assms(3) display_quiz_submitted [OF assms(1) g, of now inp db] assms(2)
  have "db' = save_user_progress now db (ud_id u) (lesson_topic st) c" by simp
  with g show ?thesis by (simp add: save_user_progress_def Let_def)
qed

theorem results_page_saves_one_record_witness:
  "\<exists>row. user_progress shown_once_db = user_progress sample_db @ [row] \<and>
     p_user_id row = 1 \<and> p_topic row = ''Loops'' \<and> p_quiz_score row = 4 \<and>
     p_completed_at row = 401"
proof -
  have sub: "quiz_submitted (submitted_session four_right)"
    by (rule submitted_session_graded)
  have usr: "user_data (submitted_session four_right) = Some alice_user"
    by (rule submitted_session_graded)
  have run: "display_quiz 401 idle_input (submitted_session four_right) sample_db =
      Inr (submitted_session four_right, shown_once_db, four_right_view, False)"
    by (simp only: display_quiz_four_right shown_once_db_def)
  from results_page_saves_one_record [OF sub usr run] grade_four_right
  show ?thesis
    by (auto simp: submitted_session_graded alice_user_def)
qed

lemma record_answers_at:
  "record_answers radio i qs answers k =
     (if i \<le> k \<and> k < i + length qs then Some (radio k) else answers k)"
  by (induction qs arbitrary: i answers) auto

text \<open>
  A run of the quiz form stores, for every question index, the value its
  radio widget returned, keeps the entries of other indices, and leaves the questions and
  the database as they are; the session becomes submitted exactly when the submit button
  reports its click, and then the run ends in a rerun. So when the results page is
  reached through the form, every question index has a recorded answer.
\<close>

theorem quiz_form_records_every_answer:
  assumes "\<not> quiz_submitted st"
  shows "\<exists>st'.
           display_quiz now inp st db = Inr (st', db, FormView, submit_quiz inp) \<and>
           (\<forall>i. quiz_answers st' i =
                  (if i < length (quiz_questions st) then Some (radio_value inp i)
                   else quiz_answers st i)) \<and>
           quiz_submitted st' = submit_quiz inp \<and>
           quiz_questions st' = quiz_questions st \<and>
           lesson_topic st' = lesson_topic st \<and> current_lesson st' = current_lesson st"
  using assms by (simp add: display_quiz_def Let_def record_answers_at)

theorem quiz_form_records_every_answer_witness:
  "display_quiz 400 (submit_input (radio_of [0, 1, 2, 3, 1, 2, 3, 0])) ready_session sample_db =
     Inr (submitted_session four_right, sample_db, FormView, True) \<and>
   four_right 0 = Some (Some ''A) for'') \<and>
   four_right 7 = Some (Some ''A) for'') \<and>
   four_right 8 = None"
proof -
  have ready: "\<not> quiz_submitted ready_session"
    by (simp add: ready_session_def)
  from quiz_form_records_every_answer [OF ready, of 400
      "submit_input (radio_of [0, 1, 2, 3, 1, 2, 3, 0])" sample_db]
  obtain st' where
    run: "display_quiz 400 (submit_input (radio_of [0, 1, 2, 3, 1, 2, 3, 0])) ready_session
        sample_db = Inr (st', sample_db, FormView, True)"
    and answers: "\<forall>i. quiz_answers st' i =
        (if i < length (quiz_questions ready_session)
         then Some (radio_value (submit_input (radio_of [0, 1, 2, 3, 1, 2, 3, 0])) i)
         else quiz_answers ready_session i)"
    by (auto simp: submit_input_def)
  have same: "display_quiz 400 (submit_input (radio_of [0, 1, 2, 3, 1, 2, 3, 0])) ready_session
      sample_db = Inr (submitted_session four_right, sample_db, FormView, True)"
    by (simp add: display_quiz_def submit_input_def ready_session_def submitted_session_def
        four_right_def Let_def)
  from run same have st': "st' = submitted_session four_right" by simp
  from answers [rule_format, of 0] answers [rule_format, of 7] answers [rule_format, of 8]
  have "four_right 0 = Some (Some ''A) for'') \<and> four_right 7 = Some (Some ''A) for'') \<and>
      four_right 8 = None"
    by (simp add: st' submitted_session_graded submit_input_def radio_of_def
        ready_session_def sample_quiz_def sample_options_def)
  with same show ?thesis by simp
qed

text \<open>
  When the correct index of the first quiz item is outside the item's
  options (counting from either end, as Python does), grading raises \<open>IndexError\<close>, and
  so does the results page: nothing is shown and nothing is saved.
\<close>

theorem results_page_raises_on_bad_index:
  assumes "quiz_questions st = q # qs"
    and "q_correct q < - int (length (q_options q)) \<or> int (length (q_options q)) \<le> q_correct q"
    and "quiz_submitted st"
  shows "grade_questions (quiz_answers st) 0 (quiz_questions st) 0 [] = Inl IndexError \<and>
         display_quiz now inp st db = Inl IndexError"
proof -
  from assms(2) have "py_index (q_options q) (q_correct q) = Inl IndexError"
    by (auto simp: py_index_def)
  with assms(1) have "grade_questions (quiz_answers st) 0 (quiz_questions st) 0 [] = Inl IndexError"
    by simp
  with assms(3) show ?thesis by (simp add: display_quiz_def)
qed

theorem results_page_raises_on_bad_index_witness:
  "display_quiz 401 idle_input
     ((submitted_session four_right)
        \<lparr>quiz_questions := [\<lparr>q_question = ''What does a loop do?'',
                              q_options = [''A) repeats'', ''B) stops''], q_correct = 5,
                              q_explanation = ''It repeats.''\<rparr>]\<rparr>)
     sample_db = Inl IndexError"
proof -
  let ?q = "\<lparr>q_question = ''What does a loop do?'',
             q_options = [''A) repeats'', ''B) stops''], q_correct = 5,
             q_explanation = ''It repeats.''\<rparr>"
  let ?st = "(submitted_session four_right)\<lparr>quiz_questions := [?q]\<rparr>"
  have items: "quiz_questions ?st = ?q # []" by simp
  have bad: "q_correct ?q < - int (length (q_options ?q)) \<or>
      int (length (q_options ?q)) \<le> q_correct ?q"
    by simp
  have sub: "quiz_submitted ?st"
    by (simp add: submitted_session_def)
  from results_page_raises_on_bad_index [OF items bad sub, of 401 idle_input sample_db]
  show ?thesis by simp
qed

lemma find_append_absent:
  "\<forall>x\<in>set xs. \<not> P x \<Longrightarrow> find P (xs @ ys) = find P ys"
  by (induction xs) auto

text \<open>
  When the password check accepts every password against its own hash, an
  account registered with an email that no stored account has can be authenticated
  afterwards with the same email and password: \<open>authenticate_user\<close> returns the new
  identifier, the email and the age given at registration.
\<close>

theorem register_then_authenticate:
  assumes "\<forall>p s. checkpw p (hashpw p s)"
    and "email \<notin> set (map u_email (users db))"
  shows "\<exists>new_id db'.
           create_user hashpw salt now db email password age = Inr (Some new_id, db') \<and>
           fst (authenticate_user checkpw later db' email password) =
             Some \<lparr>ud_id = new_id, ud_email = email, ud_age = age\<rparr>"
proof -
  let ?row = "\<lparr>u_id = next_rowid (users_seq db) (map u_id (users db)), u_email = email,
               u_password_hash = hashpw password salt, u_age = age, u_created_at = now,
               u_last_login = None\<rparr>"
  let ?db' = "db\<lparr>users := users db @ [?row],
                 users_seq := next_rowid (users_seq db) (map u_id (users db))\<rparr>"
  from assms(2) have created: "create_user hashpw salt now db email password age =
      Inr (Some (u_id ?row), ?db')"
    by (simp add: create_user_def insert_user_def hash_password_secure_def Let_def del: set_map)
  from assms(2) have "\<forall>r\<in>set (users db). \<not> u_email r = email" by auto
  then have "find (\<lambda>r. u_email r = email) (users db @ [?row]) =
      find (\<lambda>r. u_email r = email) [?row]"
    by (rule find_append_absent)
  then have found: "find (\<lambda>r. u_email r = email) (users ?db') = Some ?row" by simp
  from assms(1) have "checkpw password (hashpw password salt)" by simp
  with found have "fst (authenticate_user checkpw later ?db' email password) =
      Some \<lparr>ud_id = u_id ?row, ud_email = email, ud_age = age\<rparr>"
    by (simp add: authenticate_user_def verify_password_def)
  with created show ?thesis by blast
qed

theorem register_then_authenticate_witness:
  "create_user sample_hashpw ''s2'' 200 sample_db ''bob@example.com'' ''Other22'' 30 =
     Inr (Some 2,
          sample_db\<lparr>users := [alice_row,
                               \<lparr>u_id = 2, u_email = ''bob@example.com'',
                                 u_password_hash = ''s2$22rehtO'', u_age = 30,
                                 u_created_at = 200, u_last_login = None\<rparr>],
                     users_seq := 2\<rparr>) \<and>
   (\<exists>db'. create_user sample_hashpw ''s2'' 200 sample_db ''bob@example.com'' ''Other22'' 30 =
            Inr (Some 2, db') \<and>
          fst (authenticate_user sample_checkpw 300 db' ''bob@example.com'' ''Other22'') =
            Some \<lparr>ud_id = 2, ud_email = ''bob@example.com'', ud_age = 30\<rparr>)"
proof -
  have accepts: "\<forall>p s. sample_checkpw p (sample_hashpw p s)"
    by (simp add: sample_checkpw_def sample_hashpw_def)
  have fresh: "''bob@example.com'' \<notin> set (map u_email (users sample_db))"
    by (simp add: sample_db_def alice_row_def)
  have created: "create_user sample_hashpw ''s2'' 200 sample_db ''bob@example.com'' ''Other22'' 30 =
      Inr (Some 2,
           sample_db\<lparr>users := [alice_row,
                                \<lparr>u_id = 2, u_email = ''bob@example.com'',
                                  u_password_hash = ''s2$22rehtO'', u_age = 30,
                                  u_created_at = 200, u_last_login = None\<rparr>],
                      users_seq := 2\<rparr>)"
    by (simp add: create_user_def insert_user_def hash_password_secure_def Let_def
        next_rowid_def sample_db_def alice_row_def sample_hashpw_def)
  note run = register_then_authenticate
      [where checkpw = sample_checkpw and hashpw = sample_hashpw and db = sample_db
        and email = "''bob@example.com''" and salt = "''s2''" and now = 200
        and password = "''Other22''" and age = 30 and later = 300]
  from run [OF accepts fresh] created
  show ?thesis by auto
qed

end
